theory Spec2Isabelle
  imports Complex_Main "HOL-Library.Sublist"
begin

section \<open>The statistics record\<close>

text \<open>
  \<^verbatim>\<open>get_user_stats\<close> returns a dictionary with ten fixed keys; \<^verbatim>\<open>calculate_grade\<close> and
  \<^verbatim>\<open>generate_svg\<close> read it. The record below has one field per key, under the key's own
  name. Python's integers are unbounded, so the counts are \<^typ>\<open>int\<close>; nothing in the
  grading code checks their sign, and the model computes what the code computes on
  negative counts as well.
\<close>

record stats =
  username :: string
  name :: string
  avatar_base64 :: string
  repos :: int
  followers :: int
  following :: int
  stars :: int
  prs :: int
  issues :: int
  commits :: int

section \<open>Grading\<close>

text \<open>
  Lines 154 to 160 of \<^verbatim>\<open>calculate_grade\<close>: the score starts at 0 and six capped terms are
  added to it, one statement each. The fifth term multiplies by the float \<^verbatim>\<open>0.5\<close>, so the
  score is an integer or an integer plus one half; it is modelled in \<^typ>\<open>rat\<close>, where
  halving is exact. (Binary floating point halves an integer exactly as long as the
  integer converts to a double; a count of 101 or more already exceeds the cap of 50.)
\<close>

definition grade_score :: "stats \<Rightarrow> rat" where
  "grade_score st =
    (let score = 0;
         score = score + min (of_int (repos st) * 2) 50;
         score = score + min (of_int (followers st) * 1) 50;
         score = score + min (of_int (stars st) * 3) 75;
         score = score + min (of_int (prs st) * 5) 75;
         score = score + min (of_int (commits st) * (1 / 2)) 50;
         score = score + min (of_int (issues st) * 2) 25
     in score)"

text \<open>
  Lines 162 to 177: the cascade of comparisons, highest threshold first. The returned
  strings are the ones the source returns; the plus sign of the three intermediate
  grades comes first in them.
\<close>

definition grade_of_score :: "rat \<Rightarrow> string" where
  "grade_of_score score =
    (if score \<ge> 300 then ''S''
     else if score \<ge> 200 then ''+A''
     else if score \<ge> 150 then ''A''
     else if score \<ge> 100 then ''+B''
     else if score \<ge> 75 then ''B''
     else if score \<ge> 50 then ''+C''
     else if score \<ge> 25 then ''C''
     else ''D'')"

definition calculate_grade :: "stats \<Rightarrow> string" where
  "calculate_grade st = grade_of_score (grade_score st)"

text \<open>
  The scoring formula in the words of the specification, over the six scored counts,
  to be compared with \<^const>\<open>grade_score\<close>.
\<close>

definition score_formula :: "int \<Rightarrow> int \<Rightarrow> int \<Rightarrow> int \<Rightarrow> int \<Rightarrow> int \<Rightarrow> rat" where
  "score_formula repoCount followerCount starCount prCount commitCount issueCount =
     min (of_int repoCount * 2) 50 + min (of_int followerCount * 1) 50
   + min (of_int starCount * 3) 75 + min (of_int prCount * 5) 75
   + min (of_int commitCount / 2) 50 + min (of_int issueCount * 2) 25"

text \<open>A record with the six scored counts given and everything else empty or zero.\<close>

definition scored :: "int \<Rightarrow> int \<Rightarrow> int \<Rightarrow> int \<Rightarrow> int \<Rightarrow> int \<Rightarrow> stats" where
  "scored r f s p c i =
     \<lparr>username = '''', name = '''', avatar_base64 = '''', repos = r, followers = f,
      following = 0, stars = s, prs = p, issues = i, commits = c\<rparr>"

text \<open>
  The grades from lowest to highest, in the strings the code returns, and the position
  of a string in that order (8 for a string that is no grade).
\<close>

definition grade_order :: "string list" where
  "grade_order = [''D'', ''C'', ''+C'', ''B'', ''+B'', ''A'', ''+A'', ''S'']"

definition grade_rank :: "string \<Rightarrow> nat" where
  "grade_rank g = length (takeWhile (\<lambda>x. x \<noteq> g) grade_order)"

section \<open>The remote API as the aggregator sees it\<close>

text \<open>
  Every network call of the script goes through \<^verbatim>\<open>urllib.request.urlopen\<close> and either
  raises or delivers a response. The exceptions that matter are the two that
  \<^verbatim>\<open>fetch_github_data\<close> names, the \<^verbatim>\<open>KeyError\<close> of a subscript on a missing key, the
  \<^verbatim>\<open>ValueError\<close> of a body that does not decode, and any other one.
\<close>

datatype exn = HTTPError | URLError | KeyError | ValueError | OtherError

text \<open>
  A request is the URL and the headers given to \<^verbatim>\<open>urllib.request.Request\<close>, the headers
  in the order the dictionary literal lists them.
\<close>

record request =
  url :: string
  headers :: "(string \<times> string) list"

text \<open>
  The decoded JSON bodies, with the keys the script reads. A key the script reads with
  \<^verbatim>\<open>.get\<close> is optional (\<open>None\<close> when the key is missing); so is the \<^verbatim>\<open>name\<close> of a
  repository, which the script reads with a subscript that raises when the key is
  missing.
\<close>

record user_data =
  user_avatar_url :: "string option"
  user_name :: "string option"
  user_public_repos :: "int option"
  user_followers :: "int option"
  user_following :: "int option"

record repo =
  repo_name :: "string option"
  repo_stargazers_count :: "int option"

record search_data =
  total_count :: "int option"

text \<open>
  The response to a commit lookup: the \<^verbatim>\<open>Link\<close> header if there is one, and what
  \<^verbatim>\<open>json.loads(response.read().decode("utf-8"))\<close> gives, an exception or the list of
  items (each item stands for one commit object).
\<close>

record commits_response =
  link :: "string option"
  items :: "exn + string list"

text \<open>
  The world outside the process: for each kind of call, what \<^verbatim>\<open>urlopen\<close> followed by
  reading and decoding gives for a request (an exception or the decoded body), and
  whether creating the output directory and writing the output file fail.
  A byte is a \<^typ>\<open>char\<close>.
\<close>

record world =
  json_user :: "request \<Rightarrow> exn + user_data"
  json_repos :: "request \<Rightarrow> exn + repo list"
  json_search :: "request \<Rightarrow> exn + search_data"
  raw_image :: "request \<Rightarrow> exn + string"
  commits_page :: "request \<Rightarrow> exn + commits_response"
  makedirs_error :: "string \<Rightarrow> exn option"
  write_error :: "string \<Rightarrow> exn option"

text \<open>The requests issued so far, oldest first.\<close>

type_synonym trace = "request list"

definition API_TIMEOUT :: nat where
  "API_TIMEOUT = 30"

definition MAX_REPOS_FOR_COMMITS :: nat where
  "MAX_REPOS_FOR_COMMITS = 10"

section \<open>Library functions the aggregator uses\<close>

text \<open>Python's \<^verbatim>\<open>sub in s\<close> on strings: \<open>sub\<close> occurs in \<open>s\<close> as a contiguous run.\<close>

fun contains :: "string \<Rightarrow> string \<Rightarrow> bool" where
  "contains sub [] = (sub = [])"
| "contains sub (c # cs) = (prefix sub (c # cs) \<or> contains sub cs)"

definition is_digit :: "char \<Rightarrow> bool" where
  "is_digit c = (48 \<le> (of_char c :: nat) \<and> (of_char c :: nat) \<le> 57)"

text \<open>\<^verbatim>\<open>int\<close> of a string of decimal digits.\<close>

definition int_of_digits :: "string \<Rightarrow> int" where
  "int_of_digits ds = foldl (\<lambda>n c. 10 * n + (int (of_char c) - 48)) 0 ds"

definition rel_last :: string where
  \<open>rel_last = ''rel="last"''\<close>

text \<open>
  The pattern \<^verbatim>\<open>page=(\d+)>; rel=\"last\"\<close> tried at the start of a string: the literal
  \<^verbatim>\<open>page=\<close>, one or more digits, the literal \<^verbatim>\<open>>; rel="last"\<close>; the result is the group.
  The digits are a maximal run: the character after the group must be \<^verbatim>\<open>>\<close>, which is
  not a digit, so giving back digits never helps the matcher. Header values are Latin-1
  text, in which the only decimal digits are \<^verbatim>\<open>0\<close> to \<^verbatim>\<open>9\<close>.
\<close>

definition match_last_at :: "string \<Rightarrow> string option" where
  \<open>match_last_at s =
    (if prefix ''page='' s then
       (let r = drop 5 s; ds = takeWhile is_digit r; rest = dropWhile is_digit r
        in if ds \<noteq> [] \<and> prefix ''>; rel="last"'' rest then Some ds else None)
     else None)\<close>

text \<open>\<^verbatim>\<open>re.search\<close> with that pattern: the leftmost position where it matches.\<close>

fun re_search_last :: "string \<Rightarrow> string option" where
  "re_search_last [] = None"
| "re_search_last (c # cs) =
     (case match_last_at (c # cs) of
        Some ds \<Rightarrow> Some ds
      | None \<Rightarrow> re_search_last cs)"

text \<open>\<^verbatim>\<open>base64.b64encode\<close>: three bytes become four characters of the alphabet.\<close>

definition b64_alphabet :: string where
  "b64_alphabet = ''ABCDEFGHIJKLMNOPQRSTUVWXYZabcdefghijklmnopqrstuvwxyz0123456789+/''"

definition b64_char :: "nat \<Rightarrow> char" where
  "b64_char n = b64_alphabet ! (n mod 64)"

fun b64encode :: "string \<Rightarrow> string" where
  "b64encode (a # b # c # rest) =
     (let x = (of_char a :: nat); y = (of_char b :: nat); z = (of_char c :: nat)
      in [b64_char (x div 4), b64_char ((x mod 4) * 16 + y div 16),
          b64_char ((y mod 16) * 4 + z div 64), b64_char (z mod 64)] @ b64encode rest)"
| "b64encode [a, b] =
     (let x = (of_char a :: nat); y = (of_char b :: nat)
      in [b64_char (x div 4), b64_char ((x mod 4) * 16 + y div 16),
          b64_char ((y mod 16) * 4), CHR ''=''])"
| "b64encode [a] =
     (let x = (of_char a :: nat)
      in [b64_char (x div 4), b64_char ((x mod 4) * 16), CHR ''='', CHR ''=''])"
| "b64encode [] = []"

section \<open>The aggregator\<close>

text \<open>
  The \<^verbatim>\<open>Authorization\<close> header is added when the token is truthy: present and not the
  empty string.
\<close>

definition auth_headers :: "string option \<Rightarrow> (string \<times> string) list" where
  "auth_headers token =
     (case token of
        None \<Rightarrow> []
      | Some t \<Rightarrow> if t = [] then [] else [(''Authorization'', ''token '' @ t)])"

text \<open>
  \<^verbatim>\<open>fetch_github_data\<close>: build the request, open it, decode the body. The two handlers
  print and re-raise, so every exception leaves the function as it came. The first
  argument is the call of the world that answers (the decoded body has the type the
  caller reads).
\<close>

definition fetch_github_data ::
  "(request \<Rightarrow> exn + 'a) \<Rightarrow> string \<Rightarrow> string option \<Rightarrow> trace \<Rightarrow> (exn + 'a) \<times> trace" where
  "fetch_github_data api u token tr =
     (let hs = [(''Accept'', ''application/vnd.github.v3+json''),
                (''User-Agent'', ''GitHub-Stats-Generator'')] @ auth_headers token;
          req = \<lparr>url = u, headers = hs\<rparr>
      in (case api req of
            Inl e \<Rightarrow> (Inl e, tr @ [req])
          | Inr v \<Rightarrow> (Inr v, tr @ [req])))"

text \<open>\<^verbatim>\<open>fetch_avatar_base64\<close>: any exception gives the empty string.\<close>

definition fetch_avatar_base64 :: "world \<Rightarrow> string \<Rightarrow> trace \<Rightarrow> string \<times> trace" where
  "fetch_avatar_base64 w avatar_url tr =
     (let req = \<lparr>url = avatar_url, headers = [(''User-Agent'', ''GitHub-Stats-Generator'')]\<rparr>
      in (case raw_image w req of
            Inr image_data \<Rightarrow> (b64encode image_data, tr @ [req])
          | Inl e \<Rightarrow> ('''', tr @ [req])))"

text \<open>The request of the commit lookup for the repository called \<open>rname\<close>.\<close>

definition commits_request :: "string \<Rightarrow> string option \<Rightarrow> string \<Rightarrow> request" where
  "commits_request uname token rname =
     \<lparr>url = ''https://api.github.com/repos/'' @ uname @ ''/'' @ rname
              @ ''/commits?author='' @ uname @ ''&per_page=1'',
      headers = [(''Accept'', ''application/vnd.github.v3+json''),
                 (''User-Agent'', ''GitHub-Stats-Generator'')] @ auth_headers token\<rparr>"

text \<open>
  The body of the \<^verbatim>\<open>try\<close> in the loop over the sampled repositories, for one repository:
  the new value of \<^verbatim>\<open>total_commits\<close>, or the exception that left the body.
\<close>

definition commit_lookup ::
  "world \<Rightarrow> string \<Rightarrow> string option \<Rightarrow> repo \<Rightarrow> int \<Rightarrow> trace \<Rightarrow> (exn + int) \<times> trace" where
  "commit_lookup w uname token r total_commits tr =
     (case repo_name r of
        None \<Rightarrow> (Inl KeyError, tr)
      | Some rname \<Rightarrow>
          (let req = commits_request uname token rname; tr' = tr @ [req]
           in (case commits_page w req of
                 Inl e \<Rightarrow> (Inl e, tr')
               | Inr response \<Rightarrow>
                   (let link_header = (case link response of None \<Rightarrow> '''' | Some l \<Rightarrow> l)
                    in if contains rel_last link_header then
                         (case re_search_last link_header of
                            Some ds \<Rightarrow> (Inr (total_commits + int_of_digits ds), tr')
                          | None \<Rightarrow> (Inr total_commits, tr'))
                       else
                         (case items response of
                            Inl e \<Rightarrow> (Inl e, tr')
                          | Inr cs \<Rightarrow> (Inr (total_commits + int (length cs)), tr'))))))"

text \<open>
  The loop: \<^verbatim>\<open>except Exception: pass\<close> keeps the total as it was and goes on with the next
  repository.
\<close>

fun commits_loop ::
  "world \<Rightarrow> string \<Rightarrow> string option \<Rightarrow> repo list \<Rightarrow> int \<Rightarrow> trace \<Rightarrow> int \<times> trace" where
  "commits_loop w uname token [] total_commits tr = (total_commits, tr)"
| "commits_loop w uname token (r # rs) total_commits tr =
     (case commit_lookup w uname token r total_commits tr of
        (Inl e, tr') \<Rightarrow> commits_loop w uname token rs total_commits tr'
      | (Inr t, tr') \<Rightarrow> commits_loop w uname token rs t tr')"

text \<open>
  \<^verbatim>\<open>get_user_stats\<close>: the four calls whose exceptions propagate, then the two that are
  guarded.
\<close>

definition get_user_stats ::
  "world \<Rightarrow> string \<Rightarrow> string option \<Rightarrow> trace \<Rightarrow> (exn + stats) \<times> trace" where
  "get_user_stats w uname token tr0 =
   (case fetch_github_data (json_user w) (''https://api.github.com/users/'' @ uname) token tr0 of
      (Inl e, tr1) \<Rightarrow> (Inl e, tr1)
    | (Inr ud, tr1) \<Rightarrow>
   (let repos_url = ''https://api.github.com/users/'' @ uname @ ''/repos?per_page=100''
    in case fetch_github_data (json_repos w) repos_url token tr1 of
      (Inl e, tr2) \<Rightarrow> (Inl e, tr2)
    | (Inr repo_list, tr2) \<Rightarrow>
   (let total_stars =
          sum_list (map (\<lambda>r. case repo_stargazers_count r of None \<Rightarrow> 0 | Some n \<Rightarrow> n) repo_list)
    in case fetch_github_data (json_search w)
              (''https://api.github.com/search/issues?q=author:'' @ uname @ ''+type:pr'') token tr2 of
      (Inl e, tr3) \<Rightarrow> (Inl e, tr3)
    | (Inr prs_data, tr3) \<Rightarrow>
   (case fetch_github_data (json_search w)
              (''https://api.github.com/search/issues?q=author:'' @ uname @ ''+type:issue'') token tr3 of
      (Inl e, tr4) \<Rightarrow> (Inl e, tr4)
    | (Inr issues_data, tr4) \<Rightarrow>
   (let (avatar, tr5) =
          (case user_avatar_url ud of
             None \<Rightarrow> ('''', tr4)
           | Some au \<Rightarrow> if au = [] then ('''', tr4) else fetch_avatar_base64 w au tr4);
        (total_commits, tr6) =
          commits_loop w uname token (take MAX_REPOS_FOR_COMMITS repo_list) 0 tr5
    in (Inr \<lparr>username = uname,
             name = (case user_name ud of None \<Rightarrow> uname | Some n \<Rightarrow> if n = [] then uname else n),
             avatar_base64 = avatar,
             repos = (case user_public_repos ud of None \<Rightarrow> 0 | Some n \<Rightarrow> n),
             followers = (case user_followers ud of None \<Rightarrow> 0 | Some n \<Rightarrow> n),
             following = (case user_following ud of None \<Rightarrow> 0 | Some n \<Rightarrow> n),
             stars = total_stars,
             prs = (case total_count prs_data of None \<Rightarrow> 0 | Some n \<Rightarrow> n),
             issues = (case total_count issues_data of None \<Rightarrow> 0 | Some n \<Rightarrow> n),
             commits = total_commits\<rparr>, tr6))))))"

section \<open>The renderer\<close>

text \<open>\<^verbatim>\<open>str\<close> of an integer, as the f-string puts a count into the document.\<close>

fun str_nat :: "nat \<Rightarrow> string" where
  "str_nat n =
     (if n < 10 then [char_of (48 + n)]
      else str_nat (n div 10) @ [char_of (48 + n mod 10)])"




section \<open>The entry point\<close>







section \<open>Names for the statements\<close>

text \<open>The request \<^const>\<open>fetch_github_data\<close> builds for a URL and a token.\<close>

definition api_request :: "string \<Rightarrow> string option \<Rightarrow> request" where
  "api_request u token =
     \<lparr>url = u,
      headers = [(''Accept'', ''application/vnd.github.v3+json''),
                 (''User-Agent'', ''GitHub-Stats-Generator'')] @ auth_headers token\<rparr>"

text \<open>The four requests whose failure ends the aggregation, in the order they are issued.\<close>

definition profile_request :: "string \<Rightarrow> string option \<Rightarrow> request" where
  "profile_request uname token = api_request (''https://api.github.com/users/'' @ uname) token"

definition repos_request :: "string \<Rightarrow> string option \<Rightarrow> request" where
  "repos_request uname token =
     api_request (''https://api.github.com/users/'' @ uname @ ''/repos?per_page=100'') token"

definition prs_request :: "string \<Rightarrow> string option \<Rightarrow> request" where
  "prs_request uname token =
     api_request (''https://api.github.com/search/issues?q=author:'' @ uname @ ''+type:pr'') token"

definition issues_request :: "string \<Rightarrow> string option \<Rightarrow> request" where
  "issues_request uname token =
     api_request (''https://api.github.com/search/issues?q=author:'' @ uname @ ''+type:issue'') token"

definition avatar_request :: "string \<Rightarrow> request" where
  "avatar_request avatar_url =
     \<lparr>url = avatar_url, headers = [(''User-Agent'', ''GitHub-Stats-Generator'')]\<rparr>"

text \<open>The avatar requests of a run: one if the profile has a non-empty avatar URL.\<close>

definition avatar_requests :: "user_data \<Rightarrow> request list" where
  "avatar_requests ud =
     (case user_avatar_url ud of
        None \<Rightarrow> []
      | Some au \<Rightarrow> if au = [] then [] else [avatar_request au])"

text \<open>The \<^verbatim>\<open>Link\<close> header as the loop reads it: the empty string when there is none.\<close>

definition link_header_of :: "commits_response \<Rightarrow> string" where
  "link_header_of response = (case link response of None \<Rightarrow> '''' | Some l \<Rightarrow> l)"

text \<open>
  What one repository adds to the commit count: the total after one pass of the loop
  body that starts from zero, and zero when the body is left by an exception.
\<close>

definition contribution :: "world \<Rightarrow> string \<Rightarrow> string option \<Rightarrow> repo \<Rightarrow> int" where
  "contribution w uname token r =
     (case fst (commit_lookup w uname token r 0 []) of Inl e \<Rightarrow> 0 | Inr t \<Rightarrow> t)"

section \<open>A sample world\<close>

text \<open>
  A concrete world for the user \<^verbatim>\<open>octocat\<close>: twenty-five repositories \<^verbatim>\<open>r1\<close> to \<^verbatim>\<open>r25\<close>
  with rising star counts; an avatar that cannot be fetched; commit lookups that answer
  with a last page of 7 (\<^verbatim>\<open>r1\<close>), one item (\<^verbatim>\<open>r2\<close>), no item (\<^verbatim>\<open>r3\<close>), an HTTP error
  (\<^verbatim>\<open>r4\<close>), a last-page link whose page number is not where the pattern looks
  (\<^verbatim>\<open>r5\<close>), and a body that does not decode (all others).
\<close>

definition demo_repos :: "repo list" where
  "demo_repos =
     map (\<lambda>i. \<lparr>repo_name = Some (''r'' @ str_nat i), repo_stargazers_count = Some (int i)\<rparr>)
       [1..<26]"

definition demo_link :: string where
  \<open>demo_link =
     ''<https://api.github.com/repositories/1/commits?author=octocat&per_page=1&page=2>; rel="next", ''
     @ ''<https://api.github.com/repositories/1/commits?author=octocat&per_page=1&page=7>; rel="last"''\<close>

definition demo_bad_link :: string where
  \<open>demo_bad_link =
     ''<https://api.github.com/repositories/5/commits?page=9&per_page=1&author=octocat>; rel="last"''\<close>

definition demo_commits_page :: "request \<Rightarrow> exn + commits_response" where
  "demo_commits_page req =
     (if req = commits_request ''octocat'' None ''r1''
        then Inr \<lparr>link = Some demo_link, items = Inr [''c1'']\<rparr>
      else if req = commits_request ''octocat'' None ''r2''
        then Inr \<lparr>link = None, items = Inr [''c1'']\<rparr>
      else if req = commits_request ''octocat'' None ''r3''
        then Inr \<lparr>link = None, items = Inr []\<rparr>
      else if req = commits_request ''octocat'' None ''r4''
        then Inl HTTPError
      else if req = commits_request ''octocat'' None ''r5''
        then Inr \<lparr>link = Some demo_bad_link, items = Inr [''c1'']\<rparr>
      else Inr \<lparr>link = None, items = Inl ValueError\<rparr>)"

definition demo_world :: world where
  "demo_world =
     \<lparr>json_user = (\<lambda>req. Inr \<lparr>user_avatar_url = Some ''https://avatars.githubusercontent.com/u/1'',
                               user_name = Some ''The Octocat'', user_public_repos = Some 25,
                               user_followers = Some 20, user_following = Some 9\<rparr>),
      json_repos = (\<lambda>req. Inr demo_repos),
      json_search = (\<lambda>req. if req = prs_request ''octocat'' None
                            then Inr \<lparr>total_count = Some 3\<rparr> else Inr \<lparr>total_count = Some 2\<rparr>),
      raw_image = (\<lambda>req. Inl URLError),
      commits_page = demo_commits_page,
      makedirs_error = (\<lambda>d. None),
      write_error = (\<lambda>f. None)\<rparr>"


section \<open>Lemmas about the grading\<close>

lemma grade_score_formula:
  "grade_score st =
     score_formula (repos st) (followers st) (stars st) (prs st) (commits st) (issues st)"
  by (simp add: grade_score_def score_formula_def)




lemma grade_rank_of_score:
  "grade_rank (grade_of_score x) =
     (if x \<ge> 300 then 7 else if x \<ge> 200 then 6 else if x \<ge> 150 then 5
      else if x \<ge> 100 then 4 else if x \<ge> 75 then 3 else if x \<ge> 50 then 2
      else if x \<ge> 25 then 1 else 0)"
  by (simp add: grade_of_score_def grade_rank_def grade_order_def)

lemma grade_rank_mono:
  "x \<le> y \<Longrightarrow> grade_rank (grade_of_score x) \<le> grade_rank (grade_of_score y)"
  by (simp add: grade_rank_of_score)

lemma grade_score_mono:
  "repos a \<le> repos b \<Longrightarrow> followers a \<le> followers b \<Longrightarrow> stars a \<le> stars b \<Longrightarrow>
   prs a \<le> prs b \<Longrightarrow> commits a \<le> commits b \<Longrightarrow> issues a \<le> issues b \<Longrightarrow>
   grade_score a \<le> grade_score b"
  unfolding grade_score_formula score_formula_def
  by (intro add_mono min.mono mult_right_mono divide_right_mono order_refl) simp_all

section \<open>Lemmas about the pattern\<close>

text \<open>
  What the search returns is a non-empty run of digits that stands in the header between
  \<^verbatim>\<open>page=\<close> and \<^verbatim>\<open>>; rel="last"\<close>.
\<close>

lemma match_last_at_sound:
  assumes "match_last_at s = Some ds"
  shows "ds \<noteq> [] \<and> (\<forall>c \<in> set ds. is_digit c)
       \<and> (\<exists>post. s = ''page='' @ ds @ ''>; rel='' @ [CHR 0x22] @ ''last'' @ [CHR 0x22] @ post)"
proof -
  from assms have p: "prefix ''page='' s"
    by (simp add: match_last_at_def split: if_splits)
  then obtain r where s: "s = ''page='' @ r" by (auto simp: prefix_def)
  have r: "drop 5 s = r" using s by simp
  from assms p r have ds: "ds = takeWhile is_digit r" "ds \<noteq> []"
    and q: "prefix (''>; rel='' @ [CHR 0x22] @ ''last'' @ [CHR 0x22]) (dropWhile is_digit r)"
    by (auto simp: match_last_at_def Let_def split: if_splits)
  from q obtain post where post: "dropWhile is_digit r
      = (''>; rel='' @ [CHR 0x22] @ ''last'' @ [CHR 0x22]) @ post"
    by (auto simp: prefix_def)
  have "r = ds @ dropWhile is_digit r" using ds(1) by simp
  then have "s = ''page='' @ ds @ ''>; rel='' @ [CHR 0x22] @ ''last'' @ [CHR 0x22] @ post"
    using s post by simp
  moreover have "\<forall>c \<in> set ds. is_digit c"
    using ds(1) by (auto dest: set_takeWhileD)
  ultimately show ?thesis using ds(2) by blast
qed

lemma re_search_last_sound:
  "re_search_last l = Some ds \<Longrightarrow>
   ds \<noteq> [] \<and> (\<forall>c \<in> set ds. is_digit c)
   \<and> (\<exists>pre post. l = pre @ ''page='' @ ds @ ''>; rel='' @ [CHR 0x22] @ ''last'' @ [CHR 0x22] @ post)"
proof (induction l)
  case Nil
  then show ?case by simp
next
  case (Cons c cs)
  show ?case
  proof (cases "match_last_at (c # cs)")
    case (Some ds')
    then have "ds' = ds" using Cons.prems by simp
    then show ?thesis
      using match_last_at_sound [OF Some] by (metis append_Nil)
  next
    case None
    then have "re_search_last cs = Some ds" using Cons.prems by simp
    from Cons.IH [OF this] obtain pre post where
      "ds \<noteq> []" "\<forall>c \<in> set ds. is_digit c"
      "cs = pre @ ''page='' @ ds @ ''>; rel='' @ [CHR 0x22] @ ''last'' @ [CHR 0x22] @ post"
      by blast
    then show ?thesis by (metis append_Cons)
  qed
qed

section \<open>Lemmas about the aggregator\<close>

lemma fetch_github_data_eq:
  "fetch_github_data api u token tr = (api (api_request u token), tr @ [api_request u token])"
  by (simp add: fetch_github_data_def api_request_def Let_def split: sum.splits)

lemma fetch_avatar_base64_eq:
  "fetch_avatar_base64 w au tr =
     (case raw_image w (avatar_request au) of Inl e \<Rightarrow> '''' | Inr d \<Rightarrow> b64encode d,
      tr @ [avatar_request au])"
  by (simp add: fetch_avatar_base64_def avatar_request_def Let_def split: sum.splits)

text \<open>One pass of the loop body adds the same amount whatever the total was before.\<close>

lemma commit_lookup_total:
  "fst (commit_lookup w uname token r tot tr) = Inr t \<Longrightarrow>
   fst (commit_lookup w uname token r 0 tr') = Inr (t - tot)"
  by (auto simp: commit_lookup_def Let_def split: option.splits sum.splits if_splits)

lemma commit_lookup_fail:
  "fst (commit_lookup w uname token r tot tr) = Inl e \<Longrightarrow>
   fst (commit_lookup w uname token r 0 tr') = Inl e"
  by (auto simp: commit_lookup_def Let_def split: option.splits sum.splits if_splits)

lemma commit_lookup_trace:
  "snd (commit_lookup w uname token r tot tr) =
     tr @ (case repo_name r of None \<Rightarrow> [] | Some n \<Rightarrow> [commits_request uname token n])"
  by (auto simp: commit_lookup_def Let_def split: option.splits sum.splits if_splits)

text \<open>
  The loop adds up the contributions and issues one request for each repository that
  has a name, in the order of the list.
\<close>

lemma commits_loop_eq:
  "commits_loop w uname token rs tot tr =
     (tot + sum_list (map (contribution w uname token) rs),
      tr @ map (commits_request uname token) (List.map_filter repo_name rs))"
proof (induction rs arbitrary: tot tr)
  case Nil
  show ?case by simp
next
  case (Cons r rs)
  obtain res tr' where step: "commit_lookup w uname token r tot tr = (res, tr')"
    by (cases "commit_lookup w uname token r tot tr")
  have tr': "tr' = tr @ (case repo_name r of None \<Rightarrow> [] | Some n \<Rightarrow> [commits_request uname token n])"
    using commit_lookup_trace [of w uname token r tot tr] step by simp
  show ?case
  proof (cases res)
    case (Inl e)
    then have "contribution w uname token r = 0"
      using commit_lookup_fail [of w uname token r tot tr e "[]"] step
      by (simp add: contribution_def)
    then show ?thesis
      using step Inl tr' Cons.IH
      by (simp split: option.splits)
  next
    case (Inr t)
    then have "contribution w uname token r = t - tot"
      using commit_lookup_total [of w uname token r tot tr t "[]"] step
      by (simp add: contribution_def)
    then show ?thesis
      using step Inr tr' Cons.IH
      by (simp split: option.splits)
  qed
qed

lemma map_filter_Some: "map f xs = map Some ys \<Longrightarrow> List.map_filter f xs = ys"
  by (induction xs arbitrary: ys) auto

lemma contribution_link:
  "repo_name r = Some n \<Longrightarrow> commits_page w (commits_request uname token n) = Inr resp \<Longrightarrow>
   contains rel_last (link_header_of resp) \<Longrightarrow>
   contribution w uname token r =
     (case re_search_last (link_header_of resp) of None \<Rightarrow> 0 | Some ds \<Rightarrow> int_of_digits ds)"
  by (simp add: contribution_def commit_lookup_def link_header_of_def Let_def split: option.splits)

lemma contribution_items:
  "repo_name r = Some n \<Longrightarrow> commits_page w (commits_request uname token n) = Inr resp \<Longrightarrow>
   \<not> contains rel_last (link_header_of resp) \<Longrightarrow>
   contribution w uname token r =
     (case items resp of Inl e \<Rightarrow> 0 | Inr cs \<Rightarrow> int (length cs))"
  by (simp add: contribution_def commit_lookup_def link_header_of_def Let_def
      split: option.splits sum.splits)

lemma contribution_fail:
  "repo_name r = Some n \<Longrightarrow> commits_page w (commits_request uname token n) = Inl e \<Longrightarrow>
   contribution w uname token r = 0"
  by (simp add: contribution_def commit_lookup_def Let_def)

lemma get_user_stats_profile_fails:
  "json_user w (profile_request uname token) = Inl e \<Longrightarrow>
   get_user_stats w uname token tr = (Inl e, tr @ [profile_request uname token])"
  by (simp add: get_user_stats_def fetch_github_data_eq profile_request_def)

lemma get_user_stats_repos_fails:
  "json_user w (profile_request uname token) = Inr ud \<Longrightarrow>
   json_repos w (repos_request uname token) = Inl e \<Longrightarrow>
   get_user_stats w uname token tr =
     (Inl e, tr @ [profile_request uname token, repos_request uname token])"
  by (simp add: get_user_stats_def fetch_github_data_eq profile_request_def repos_request_def)

lemma get_user_stats_prs_fails:
  "json_user w (profile_request uname token) = Inr ud \<Longrightarrow>
   json_repos w (repos_request uname token) = Inr rs \<Longrightarrow>
   json_search w (prs_request uname token) = Inl e \<Longrightarrow>
   get_user_stats w uname token tr =
     (Inl e, tr @ [profile_request uname token, repos_request uname token,
                   prs_request uname token])"
  by (simp add: get_user_stats_def fetch_github_data_eq profile_request_def repos_request_def
      prs_request_def)

lemma get_user_stats_issues_fails:
  "json_user w (profile_request uname token) = Inr ud \<Longrightarrow>
   json_repos w (repos_request uname token) = Inr rs \<Longrightarrow>
   json_search w (prs_request uname token) = Inr pd \<Longrightarrow>
   json_search w (issues_request uname token) = Inl e \<Longrightarrow>
   get_user_stats w uname token tr =
     (Inl e, tr @ [profile_request uname token, repos_request uname token,
                   prs_request uname token, issues_request uname token])"
  by (simp add: get_user_stats_def fetch_github_data_eq profile_request_def repos_request_def
      prs_request_def issues_request_def)

lemma avatar_step:
  "(case user_avatar_url ud of
      None \<Rightarrow> ('''', tr)
    | Some au \<Rightarrow> if au = [] then ('''', tr) else fetch_avatar_base64 w au tr) =
   ((case user_avatar_url ud of
       None \<Rightarrow> ''''
     | Some au \<Rightarrow>
         if au = [] then ''''
         else (case raw_image w (avatar_request au) of Inl e \<Rightarrow> '''' | Inr d \<Rightarrow> b64encode d)),
    tr @ avatar_requests ud)"
  by (simp add: fetch_avatar_base64_eq avatar_requests_def split: option.splits)

lemma get_user_stats_ok:
  assumes "json_user w (profile_request uname token) = Inr ud"
    and "json_repos w (repos_request uname token) = Inr rs"
    and "json_search w (prs_request uname token) = Inr pd"
    and "json_search w (issues_request uname token) = Inr isd"
  shows "get_user_stats w uname token tr =
     (Inr \<lparr>username = uname,
            name = (case user_name ud of None \<Rightarrow> uname | Some n \<Rightarrow> if n = [] then uname else n),
            avatar_base64 =
              (case user_avatar_url ud of
                 None \<Rightarrow> ''''
               | Some au \<Rightarrow>
                   if au = [] then ''''
                   else (case raw_image w (avatar_request au) of
                           Inl e \<Rightarrow> '''' | Inr d \<Rightarrow> b64encode d)),
            repos = (case user_public_repos ud of None \<Rightarrow> 0 | Some n \<Rightarrow> n),
            followers = (case user_followers ud of None \<Rightarrow> 0 | Some n \<Rightarrow> n),
            following = (case user_following ud of None \<Rightarrow> 0 | Some n \<Rightarrow> n),
            stars = sum_list (map (\<lambda>r. case repo_stargazers_count r of None \<Rightarrow> 0 | Some n \<Rightarrow> n) rs),
            prs = (case total_count pd of None \<Rightarrow> 0 | Some n \<Rightarrow> n),
            issues = (case total_count isd of None \<Rightarrow> 0 | Some n \<Rightarrow> n),
            commits = sum_list (map (contribution w uname token) (take MAX_REPOS_FOR_COMMITS rs))\<rparr>,
      tr @ [profile_request uname token, repos_request uname token,
            prs_request uname token, issues_request uname token]
         @ avatar_requests ud
         @ map (commits_request uname token)
             (List.map_filter repo_name (take MAX_REPOS_FOR_COMMITS rs)))"
  using assms
  unfolding get_user_stats_def fetch_github_data_eq profile_request_def repos_request_def
    prs_request_def issues_request_def avatar_step commits_loop_eq
  by (simp add: Let_def)

section \<open>Lemmas about the entry point\<close>





section \<open>Facts about the sample world\<close>

lemma demo_user:
  "json_user demo_world (profile_request ''octocat'' None)
     = Inr \<lparr>user_avatar_url = Some ''https://avatars.githubusercontent.com/u/1'',
            user_name = Some ''The Octocat'', user_public_repos = Some 25,
            user_followers = Some 20, user_following = Some 9\<rparr>"
  by (simp add: demo_world_def)

lemma demo_listing: "json_repos demo_world (repos_request ''octocat'' None) = Inr demo_repos"
  by (simp add: demo_world_def)

lemma demo_prs:
  "json_search demo_world (prs_request ''octocat'' None) = Inr \<lparr>total_count = Some 3\<rparr>"
  by (simp add: demo_world_def)

lemma demo_issues:
  "json_search demo_world (issues_request ''octocat'' None) = Inr \<lparr>total_count = Some 2\<rparr>"
  by code_simp

lemma demo_sum:
  "sum_list (map (contribution demo_world ''octocat'' None)
     (take MAX_REPOS_FOR_COMMITS demo_repos)) = 8"
  by code_simp

section \<open>The claims about the grading\<close>







text \<open>
  C7. Two statistics records that agree on the six scored counts get the same grade,
  whatever their \<^verbatim>\<open>following\<close> count, user name, display name and avatar are.
\<close>

theorem calculate_grade_scored_fields_only:
  "repos a = repos b \<Longrightarrow> followers a = followers b \<Longrightarrow> stars a = stars b \<Longrightarrow>
   prs a = prs b \<Longrightarrow> commits a = commits b \<Longrightarrow> issues a = issues b \<Longrightarrow>
   calculate_grade a = calculate_grade b"
  by (simp add: calculate_grade_def grade_score_formula)

theorem calculate_grade_scored_fields_only_witness:
  "following (scored 10 20 5 3 10 2)
     \<noteq> following ((scored 10 20 5 3 10 2)\<lparr>username := ''octocat'', name := ''The Octocat'',
          avatar_base64 := ''TQ=='', following := 100000\<rparr>)
 \<and> calculate_grade (scored 10 20 5 3 10 2)
     = calculate_grade ((scored 10 20 5 3 10 2)\<lparr>username := ''octocat'', name := ''The Octocat'',
          avatar_base64 := ''TQ=='', following := 100000\<rparr>)"
proof -
  let ?a = "scored 10 20 5 3 10 2"
  let ?b = "(scored 10 20 5 3 10 2)\<lparr>username := ''octocat'', name := ''The Octocat'',
          avatar_base64 := ''TQ=='', following := 100000\<rparr>"
  have d: "following ?a \<noteq> following ?b" by (simp add: scored_def)
  have g: "calculate_grade ?a = calculate_grade ?b"
    by (rule calculate_grade_scored_fields_only) simp_all
  show ?thesis using d g by (rule conjI)
qed

text \<open>
  C10. Raising any one of the six scored counts, the rest of the record unchanged, never
  lowers the grade in the order D, C, C+, B, B+, A, A+, S (the position of the returned
  string in \<^const>\<open>grade_order\<close>).
\<close>

theorem calculate_grade_monotone:
  "(n \<le> m \<longrightarrow> grade_rank (calculate_grade (st\<lparr>repos := n\<rparr>))
              \<le> grade_rank (calculate_grade (st\<lparr>repos := m\<rparr>)))
 \<and> (n \<le> m \<longrightarrow> grade_rank (calculate_grade (st\<lparr>followers := n\<rparr>))
              \<le> grade_rank (calculate_grade (st\<lparr>followers := m\<rparr>)))
 \<and> (n \<le> m \<longrightarrow> grade_rank (calculate_grade (st\<lparr>stars := n\<rparr>))
              \<le> grade_rank (calculate_grade (st\<lparr>stars := m\<rparr>)))
 \<and> (n \<le> m \<longrightarrow> grade_rank (calculate_grade (st\<lparr>prs := n\<rparr>))
              \<le> grade_rank (calculate_grade (st\<lparr>prs := m\<rparr>)))
 \<and> (n \<le> m \<longrightarrow> grade_rank (calculate_grade (st\<lparr>commits := n\<rparr>))
              \<le> grade_rank (calculate_grade (st\<lparr>commits := m\<rparr>)))
 \<and> (n \<le> m \<longrightarrow> grade_rank (calculate_grade (st\<lparr>issues := n\<rparr>))
              \<le> grade_rank (calculate_grade (st\<lparr>issues := m\<rparr>)))"
  unfolding calculate_grade_def
  by (intro conjI impI grade_rank_mono grade_score_mono) simp_all

theorem calculate_grade_monotone_witness:
  "(3::int) \<le> 20
 \<and> grade_rank (calculate_grade ((scored 10 20 5 3 10 2)\<lparr>prs := 3\<rparr>))
     \<le> grade_rank (calculate_grade ((scored 10 20 5 3 10 2)\<lparr>prs := 20\<rparr>))
 \<and> calculate_grade ((scored 10 20 5 3 10 2)\<lparr>prs := 3\<rparr>) = ''B''
 \<and> calculate_grade ((scored 10 20 5 3 10 2)\<lparr>prs := 20\<rparr>) = ''+B''"
proof -
  have le: "(3::int) \<le> 20" by simp
  have m: "grade_rank (calculate_grade ((scored 10 20 5 3 10 2)\<lparr>prs := 3\<rparr>))
     \<le> grade_rank (calculate_grade ((scored 10 20 5 3 10 2)\<lparr>prs := 20\<rparr>))"
    using calculate_grade_monotone [of 3 20 "scored 10 20 5 3 10 2"] le by blast
  have v: "calculate_grade ((scored 10 20 5 3 10 2)\<lparr>prs := 3\<rparr>) = ''B''
      \<and> calculate_grade ((scored 10 20 5 3 10 2)\<lparr>prs := 20\<rparr>) = ''+B''"
    by (simp add: scored_def calculate_grade_def grade_of_score_def grade_score_formula
        score_formula_def)
  show ?thesis using le m v by blast
qed

section \<open>The claims about the aggregator\<close>



text \<open>
  C5. A failure of the profile lookup, of the repository listing or of either search
  ends the aggregation with that failure. When these four calls succeed the aggregation
  delivers a record, whatever the avatar fetch and the commit lookups do: a failed
  avatar fetch leaves the avatar empty, and a commit lookup that fails, or whose body
  does not decode, contributes zero commits while the other repositories still count.
\<close>

theorem failure_policy:
  "(json_user w (profile_request uname token) = Inl e
    \<longrightarrow> fst (get_user_stats w uname token tr) = Inl e)
 \<and> (json_user w (profile_request uname token) = Inr ud
      \<and> json_repos w (repos_request uname token) = Inl e
    \<longrightarrow> fst (get_user_stats w uname token tr) = Inl e)
 \<and> (json_user w (profile_request uname token) = Inr ud
      \<and> json_repos w (repos_request uname token) = Inr rs
      \<and> json_search w (prs_request uname token) = Inl e
    \<longrightarrow> fst (get_user_stats w uname token tr) = Inl e)
 \<and> (json_user w (profile_request uname token) = Inr ud
      \<and> json_repos w (repos_request uname token) = Inr rs
      \<and> json_search w (prs_request uname token) = Inr pd
      \<and> json_search w (issues_request uname token) = Inl e
    \<longrightarrow> fst (get_user_stats w uname token tr) = Inl e)
 \<and> (json_user w (profile_request uname token) = Inr ud
      \<and> json_repos w (repos_request uname token) = Inr rs
      \<and> json_search w (prs_request uname token) = Inr pd
      \<and> json_search w (issues_request uname token) = Inr isd
    \<longrightarrow> (\<exists>st. fst (get_user_stats w uname token tr) = Inr st
            \<and> (\<forall>au e'. user_avatar_url ud = Some au \<and> raw_image w (avatar_request au) = Inl e'
                  \<longrightarrow> avatar_base64 st = '''')
            \<and> commits st =
                sum_list (map (contribution w uname token) (take MAX_REPOS_FOR_COMMITS rs))))
 \<and> (repo_name r = Some n \<and> commits_page w (commits_request uname token n) = Inl e
    \<longrightarrow> contribution w uname token r = 0)
 \<and> (repo_name r = Some n \<and> commits_page w (commits_request uname token n) = Inr resp
      \<and> \<not> contains rel_last (link_header_of resp) \<and> items resp = Inl e
    \<longrightarrow> contribution w uname token r = 0)"
proof (intro conjI impI)
  assume "json_user w (profile_request uname token) = Inl e"
  then show "fst (get_user_stats w uname token tr) = Inl e"
    by (simp add: get_user_stats_profile_fails)
next
  assume "json_user w (profile_request uname token) = Inr ud
      \<and> json_repos w (repos_request uname token) = Inl e"
  then show "fst (get_user_stats w uname token tr) = Inl e"
    by (simp add: get_user_stats_repos_fails)
next
  assume "json_user w (profile_request uname token) = Inr ud
      \<and> json_repos w (repos_request uname token) = Inr rs
      \<and> json_search w (prs_request uname token) = Inl e"
  then show "fst (get_user_stats w uname token tr) = Inl e"
    by (simp add: get_user_stats_prs_fails)
next
  assume "json_user w (profile_request uname token) = Inr ud
      \<and> json_repos w (repos_request uname token) = Inr rs
      \<and> json_search w (prs_request uname token) = Inr pd
      \<and> json_search w (issues_request uname token) = Inl e"
  then show "fst (get_user_stats w uname token tr) = Inl e"
    by (simp add: get_user_stats_issues_fails)
next
  assume "json_user w (profile_request uname token) = Inr ud
      \<and> json_repos w (repos_request uname token) = Inr rs
      \<and> json_search w (prs_request uname token) = Inr pd
      \<and> json_search w (issues_request uname token) = Inr isd"
  then show "\<exists>st. fst (get_user_stats w uname token tr) = Inr st
            \<and> (\<forall>au e'. user_avatar_url ud = Some au \<and> raw_image w (avatar_request au) = Inl e'
                  \<longrightarrow> avatar_base64 st = '''')
            \<and> commits st =
                sum_list (map (contribution w uname token) (take MAX_REPOS_FOR_COMMITS rs))"
    by (auto simp: get_user_stats_ok)
next
  assume "repo_name r = Some n \<and> commits_page w (commits_request uname token n) = Inl e"
  then show "contribution w uname token r = 0"
    by (simp add: contribution_fail)
next
  assume "repo_name r = Some n \<and> commits_page w (commits_request uname token n) = Inr resp
      \<and> \<not> contains rel_last (link_header_of resp) \<and> items resp = Inl e"
  then show "contribution w uname token r = 0"
    by (simp add: contribution_items)
qed

theorem failure_policy_witness:
  "fst (get_user_stats (demo_world\<lparr>json_user := \<lambda>req. Inl URLError\<rparr>) ''octocat'' None [])
     = Inl URLError
 \<and> fst (get_user_stats (demo_world\<lparr>json_repos := \<lambda>req. Inl HTTPError\<rparr>) ''octocat'' None [])
     = Inl HTTPError
 \<and> fst (get_user_stats
      (demo_world\<lparr>json_search := \<lambda>req. if req = prs_request ''octocat'' None
                                        then Inl ValueError else Inr \<lparr>total_count = Some 2\<rparr>\<rparr>)
      ''octocat'' None []) = Inl ValueError
 \<and> fst (get_user_stats
      (demo_world\<lparr>json_search := \<lambda>req. if req = prs_request ''octocat'' None
                                        then Inr \<lparr>total_count = Some 3\<rparr> else Inl OtherError\<rparr>)
      ''octocat'' None []) = Inl OtherError
 \<and> raw_image demo_world (avatar_request ''https://avatars.githubusercontent.com/u/1'') = Inl URLError
 \<and> commits_page demo_world (commits_request ''octocat'' None ''r4'') = Inl HTTPError
 \<and> contribution demo_world ''octocat'' None
      \<lparr>repo_name = Some ''r4'', repo_stargazers_count = Some 4\<rparr> = 0
 \<and> contribution demo_world ''octocat'' None
      \<lparr>repo_name = Some ''r9'', repo_stargazers_count = Some 9\<rparr> = 0
 \<and> (\<exists>st. fst (get_user_stats demo_world ''octocat'' None []) = Inr st
        \<and> avatar_base64 st = '''' \<and> commits st = 8)"
proof -
  let ?ud = "\<lparr>user_avatar_url = Some ''https://avatars.githubusercontent.com/u/1'',
            user_name = Some ''The Octocat'', user_public_repos = Some 25,
            user_followers = Some 20, user_following = Some 9\<rparr>"
  let ?w1 = "demo_world\<lparr>json_user := \<lambda>req. Inl URLError\<rparr>"
  let ?w2 = "demo_world\<lparr>json_repos := \<lambda>req. Inl HTTPError\<rparr>"
  let ?w3 = "demo_world\<lparr>json_search := \<lambda>req. if req = prs_request ''octocat'' None
                                        then Inl ValueError else Inr \<lparr>total_count = Some 2\<rparr>\<rparr>"
  let ?w4 = "demo_world\<lparr>json_search := \<lambda>req. if req = prs_request ''octocat'' None
                                        then Inr \<lparr>total_count = Some 3\<rparr> else Inl OtherError\<rparr>"
  let ?r4 = "\<lparr>repo_name = Some ''r4'', repo_stargazers_count = Some 4\<rparr>"
  let ?r9 = "\<lparr>repo_name = Some ''r9'', repo_stargazers_count = Some 9\<rparr>"
  have a1: "fst (get_user_stats ?w1 ''octocat'' None []) = Inl URLError"
    using failure_policy [of ?w1 "''octocat''" None URLError "[]"] by simp
  have a2: "fst (get_user_stats ?w2 ''octocat'' None []) = Inl HTTPError"
    using failure_policy [of ?w2 "''octocat''" None HTTPError "[]" ?ud] demo_user
    by (simp add: demo_world_def)
  have a3: "fst (get_user_stats ?w3 ''octocat'' None []) = Inl ValueError"
    using failure_policy [of ?w3 "''octocat''" None ValueError "[]" ?ud demo_repos] demo_user
    by (simp add: demo_world_def)
  have i4: "json_search ?w4 (issues_request ''octocat'' None) = Inl OtherError"
    by code_simp
  have a4: "fst (get_user_stats ?w4 ''octocat'' None []) = Inl OtherError"
    using failure_policy [of ?w4 "''octocat''" None OtherError "[]" ?ud demo_repos
        "\<lparr>total_count = Some 3\<rparr>"] i4
    by (simp add: demo_world_def)
  have av: "raw_image demo_world (avatar_request ''https://avatars.githubusercontent.com/u/1'')
              = Inl URLError"
    by (simp add: demo_world_def)
  have p4: "commits_page demo_world (commits_request ''octocat'' None ''r4'') = Inl HTTPError"
    by code_simp
  have p9: "commits_page demo_world (commits_request ''octocat'' None ''r9'')
              = Inr \<lparr>link = None, items = Inl ValueError\<rparr>"
    by code_simp
  have nl: "\<not> contains rel_last ''''" by code_simp
  have c4: "contribution demo_world ''octocat'' None ?r4 = 0"
    using failure_policy [of demo_world "''octocat''" None HTTPError _ _ _ _ _ ?r4 "''r4''"] p4
    by simp
  have c9: "contribution demo_world ''octocat'' None ?r9 = 0"
    using failure_policy [of demo_world "''octocat''" None ValueError _ _ _ _ _ ?r9 "''r9''"
        "\<lparr>link = None, items = Inl ValueError\<rparr>"] p9 nl
    by (simp add: link_header_of_def)
  have ok: "\<exists>st. fst (get_user_stats demo_world ''octocat'' None []) = Inr st
        \<and> avatar_base64 st = '''' \<and> commits st = 8"
    using failure_policy [of demo_world "''octocat''" None _ "[]" ?ud demo_repos
        "\<lparr>total_count = Some 3\<rparr>" "\<lparr>total_count = Some 2\<rparr>"]
      demo_user demo_listing demo_prs demo_issues demo_sum av
    by auto
  show ?thesis using a1 a2 a3 a4 av p4 c4 c9 ok by simp
qed

text \<open>
  C9. When the \<^verbatim>\<open>Link\<close> header of a commit lookup has the last-page indicator but the
  pattern finds no page number in it, the total stays as it was: the repository
  contributes 0, and the items of the body are not counted.
\<close>

theorem unparsable_last_page:
  "repo_name r = Some n \<Longrightarrow>
   commits_page w (commits_request uname token n) = Inr resp \<Longrightarrow>
   contains rel_last (link_header_of resp) \<Longrightarrow>
   re_search_last (link_header_of resp) = None \<Longrightarrow>
   fst (commit_lookup w uname token r tot tr) = Inr tot \<and> contribution w uname token r = 0"
  by (simp add: contribution_link) (simp add: commit_lookup_def link_header_of_def Let_def)

theorem unparsable_last_page_witness:
  "commits_page demo_world (commits_request ''octocat'' None ''r5'')
     = Inr \<lparr>link = Some demo_bad_link, items = Inr [''c1'']\<rparr>
 \<and> contains rel_last demo_bad_link
 \<and> re_search_last demo_bad_link = None
 \<and> fst (commit_lookup demo_world ''octocat'' None
          \<lparr>repo_name = Some ''r5'', repo_stargazers_count = Some 5\<rparr> 8 []) = Inr 8
 \<and> contribution demo_world ''octocat'' None
      \<lparr>repo_name = Some ''r5'', repo_stargazers_count = Some 5\<rparr> = 0"
proof -
  let ?r5 = "\<lparr>repo_name = Some ''r5'', repo_stargazers_count = Some 5\<rparr>"
  let ?resp = "\<lparr>link = Some demo_bad_link, items = Inr [''c1'']\<rparr>"
  have n: "repo_name ?r5 = Some ''r5''" by simp
  have p: "commits_page demo_world (commits_request ''octocat'' None ''r5'') = Inr ?resp"
    by code_simp
  have c: "contains rel_last (link_header_of ?resp)" by code_simp
  have s: "re_search_last (link_header_of ?resp) = None" by code_simp
  show ?thesis
    using unparsable_last_page [OF n p c s, of 8 "[]"] p c s
    by (simp add: link_header_of_def)
qed

text \<open>
  C8. When the four fatal calls succeed, the requests of a run are those four, the avatar
  request if the profile has an avatar, and then one commit lookup for each of the first
  ten repositories of the listing that has a name, in the order of the listing; when all
  of the first ten have names these are exactly their lookups. Star counts play no part,
  and the commit count is the sum over the first ten repositories only.
\<close>

theorem sampling_cap:
  "json_user w (profile_request uname token) = Inr ud \<Longrightarrow>
   json_repos w (repos_request uname token) = Inr rs \<Longrightarrow>
   json_search w (prs_request uname token) = Inr pd \<Longrightarrow>
   json_search w (issues_request uname token) = Inr isd \<Longrightarrow>
   snd (get_user_stats w uname token tr) =
     tr @ [profile_request uname token, repos_request uname token,
           prs_request uname token, issues_request uname token]
        @ avatar_requests ud
        @ map (commits_request uname token) (List.map_filter repo_name (take 10 rs))
 \<and> (map repo_name (take 10 rs) = map Some names \<longrightarrow>
      snd (get_user_stats w uname token tr) =
        tr @ [profile_request uname token, repos_request uname token,
              prs_request uname token, issues_request uname token]
           @ avatar_requests ud
           @ map (commits_request uname token) names)
 \<and> (\<exists>st. fst (get_user_stats w uname token tr) = Inr st
        \<and> commits st = sum_list (map (contribution w uname token) (take 10 rs)))"
  by (simp add: get_user_stats_ok MAX_REPOS_FOR_COMMITS_def map_filter_Some)

theorem sampling_cap_witness:
  "length demo_repos = 25
 \<and> snd (get_user_stats demo_world ''octocat'' None []) =
     [profile_request ''octocat'' None, repos_request ''octocat'' None,
      prs_request ''octocat'' None, issues_request ''octocat'' None,
      avatar_request ''https://avatars.githubusercontent.com/u/1'']
     @ map (commits_request ''octocat'' None)
         [''r1'', ''r2'', ''r3'', ''r4'', ''r5'', ''r6'', ''r7'', ''r8'', ''r9'', ''r10'']
 \<and> (\<exists>st. fst (get_user_stats demo_world ''octocat'' None []) = Inr st \<and> commits st = 8)"
proof -
  let ?ud = "\<lparr>user_avatar_url = Some ''https://avatars.githubusercontent.com/u/1'',
            user_name = Some ''The Octocat'', user_public_repos = Some 25,
            user_followers = Some 20, user_following = Some 9\<rparr>"
  let ?names = "[''r1'', ''r2'', ''r3'', ''r4'', ''r5'', ''r6'', ''r7'', ''r8'', ''r9'', ''r10'']"
  have len: "length demo_repos = 25" by (simp add: demo_repos_def)
  have names: "map repo_name (take 10 demo_repos) = map Some ?names"
    by code_simp
  have av: "avatar_requests ?ud = [avatar_request ''https://avatars.githubusercontent.com/u/1'']"
    by (simp add: avatar_requests_def)
  have s: "sum_list (map (contribution demo_world ''octocat'' None) (take 10 demo_repos)) = 8"
    using demo_sum by (simp add: MAX_REPOS_FOR_COMMITS_def)
  note sc = sampling_cap [OF demo_user demo_listing demo_prs demo_issues, of "[]" ?names]
  have tr: "snd (get_user_stats demo_world ''octocat'' None []) =
     [profile_request ''octocat'' None, repos_request ''octocat'' None,
      prs_request ''octocat'' None, issues_request ''octocat'' None,
      avatar_request ''https://avatars.githubusercontent.com/u/1'']
     @ map (commits_request ''octocat'' None) ?names"
    using sc [THEN conjunct2, THEN conjunct1] names unfolding av by simp
  have tot: "\<exists>st. fst (get_user_stats demo_world ''octocat'' None []) = Inr st \<and> commits st = 8"
    using sc [THEN conjunct2, THEN conjunct2] unfolding s .
  show ?thesis using len tr tot by blast
qed



end
